theory Spec2Isabelle
  imports Main "HOL-Library.Multiset"
begin

section \<open>The Disputes wrapper of kleros-api (src/abstractWrappers/Disputes.js)\<close>

text \<open>
  The class \<open>Disputes\<close> sits between two collaborators: the ledger accessors
  (\<open>this._Arbitrator\<close>, \<open>this._ArbitrableContract\<close>) and the store accessor
  (\<open>this._StoreProvider\<close>). Every \<open>await\<close> of the source is a call that either
  returns a value or throws; a thrown JavaScript value is an element of \<open>thrown\<close> and a
  call that may throw returns \<open>thrown + 'a\<close> (\<open>Inl\<close> is the throw). JavaScript numbers
  that the ledger hands out as counters (dispute ids, sessions, appeal numbers, draw
  numbers, timestamps) are natural numbers; token amounts are signed integers. Both stand
  for the exactly representable integers of JavaScript.
\<close>

subsection \<open>Thrown values and JavaScript arrays\<close>

type_synonym address = string

text \<open>
  \<open>throw new Error(m)\<close> throws an object, \<open>ErrorObject m\<close>; a collaborator may also
  throw a bare string, \<open>StringValue s\<close>. The two are never \<open>===\<close> to each other.
\<close>

datatype thrown = ErrorObject string | StringValue string

type_synonym 'a result = "thrown + 'a"

text \<open>
  A JavaScript array with holes is a list of options (\<open>None\<close> is a hole, \<open>undefined\<close>
  or \<open>null\<close>). Reading past the end gives \<open>undefined\<close>; writing past the end
  extends the array with holes.
\<close>

definition array_get :: "'a option list \<Rightarrow> nat \<Rightarrow> 'a option" where
  "array_get xs i = (if i < length xs then xs ! i else None)"

definition array_set :: "'a option list \<Rightarrow> nat \<Rightarrow> 'a option \<Rightarrow> 'a option list" where
  "array_set xs i v =
     (if i < length xs then xs[i := v]
      else xs @ replicate (i - length xs) None @ [v])"

text \<open>Lodash's \<open>_.findIndex\<close>: the index of the first match, or \<open>-1\<close>.\<close>

fun findIndex :: "('a \<Rightarrow> bool) \<Rightarrow> 'a list \<Rightarrow> int" where
  "findIndex P [] = -1"
| "findIndex P (x # xs) =
     (if P x then 0 else (let i = findIndex P xs in if i < 0 then -1 else i + 1))"

text \<open>The decimal form of a number inside a template string.\<close>

fun showNat :: "nat \<Rightarrow> string" where
  "showNat n =
     (if n < 10 then [''0123456789'' ! n]
      else showNat (n div 10) @ [''0123456789'' ! (n mod 10)])"

declare showNat.simps [simp del]

subsection \<open>The ledger accessors\<close>

record arbitrator_data =
  period :: nat
  session :: nat
  lastPeriodChange :: nat

record dispute =
  arbitratedContract :: address
  firstSession :: nat
  numberOfAppeals :: nat
  voteCounters :: "nat list list"
  arbitrationFeePerJuror :: nat
  state :: nat
  status :: nat

record arbitrable_data =
  partyA :: address
  partyB :: address
  contractStatus :: nat

record block =
  timestamp :: nat

text \<open>
  The ledger accessors are not part of this file of the repository; the wrapper only
  calls them. They are the fields of \<open>env\<close>, each a function from the arguments of the
  call to what the call returns or throws. \<open>getDispute\<close> may also return a falsy value
  (\<open>Inr None\<close>), which the source tests with \<open>!dispute\<close>. The constants imported from
  \<open>../constants\<close> (\<open>NULL_ADDRESS\<close>, \<open>PERIOD.APPEAL\<close>) and whether the wrappers have been
  set (\<open>_checkArbitratorWrappersSet\<close>, \<open>_checkArbitrableWrappersSet\<close>) are fields too.
\<close>

record env =
  NULL_ADDRESS :: address
  PERIOD_APPEAL :: nat
  arbitratorWrappersSet :: bool
  arbitrableWrappersSet :: bool
  Arbitrator_getData :: "address \<Rightarrow> address option \<Rightarrow> arbitrator_data result"
  getDispute :: "address \<Rightarrow> nat \<Rightarrow> dispute option result"
  currentRulingForDispute :: "address \<Rightarrow> nat \<Rightarrow> nat \<Rightarrow> nat result"
  getAmountOfJurorsForDispute :: "address \<Rightarrow> nat \<Rightarrow> nat result"
  isJurorDrawnForDispute :: "nat \<Rightarrow> nat \<Rightarrow> address \<Rightarrow> address \<Rightarrow> bool result"
  canRuleDispute :: "address \<Rightarrow> nat \<Rightarrow> nat list \<Rightarrow> bool result"
  getSession :: "address \<Rightarrow> nat result"
  getTimeForPeriod :: "address \<Rightarrow> nat \<Rightarrow> nat result"
  getBlock :: "nat \<Rightarrow> block result"
  ArbitrableContract_getData :: "address \<Rightarrow> arbitrable_data result"

text \<open>
  Modelled from the spec: the two precondition checks of the base class
  \<open>AbstractWrapper\<close>, which is not in this file. A collaborator that is not configured
  is a failure raised before any work (\<open>PreconditionNotSet\<close>).
\<close>

definition checkArbitratorWrappersSet :: "env \<Rightarrow> unit result" where
  "checkArbitratorWrappersSet L =
     (if arbitratorWrappersSet L then Inr () else Inl (ErrorObject ''PreconditionNotSet''))"

text \<open>
  Modelled from the spec: the same check for the arbitrable-contract accessor.
\<close>

definition checkArbitrableWrappersSet :: "env \<Rightarrow> unit result" where
  "checkArbitrableWrappersSet L =
     (if arbitrableWrappersSet L then Inr () else Inl (ErrorObject ''PreconditionNotSet''))"

subsection \<open>The store accessor\<close>

text \<open>
  Modelled from the spec: the records of the store. An evidence has a submitter (possibly
  none stored) and its content; a contract record has the fields the source reads.
\<close>

record evidence =
  submitter :: "address option"
  content :: string

record contract_data =
  description :: "string option"
  email :: "string option"
  evidences :: "evidence list"

text \<open>
  Modelled from the spec: what the store keeps of a dispute under
  \<open>(arbitratorAddress, disputeId)\<close>, as far as \<open>updateDispute\<close> is given it.
\<close>

record store_dispute =
  sd_arbitrableContractAddress :: address
  sd_partyA :: address
  sd_partyB :: address
  sd_appealCreatedAt :: "nat option list"
  sd_appealRuledAt :: "nat option list"

text \<open>
  An entry of \<open>userProfile.disputes\<close>, with the fields the source reads and writes.
\<close>

record profile_dispute =
  pd_disputeId :: nat
  pd_arbitratorAddress :: address
  pd_appealDraws :: "nat list option list option"
  pd_netPNK :: "int option"

record profile =
  p_session :: "nat option"
  p_disputes :: "profile_dispute list"

text \<open>What \<open>getDisputeData\<close> answers: the stored dispute joined with the profile entry.\<close>

record user_data =
  ud_appealDraws :: "nat list option list option"
  ud_netPNK :: "int option"
  ud_appealCreatedAt :: "nat option list option"
  ud_appealRuledAt :: "nat option list option"

datatype notification_type = APPEAL_POSSIBLE

record notification =
  n_account :: address
  n_txHash :: string
  n_logIndex :: nat
  n_type :: notification_type
  n_message :: string
  n_disputeId :: nat
  n_contractAddress :: address
  n_ruling :: nat

record store =
  profiles :: "address \<rightharpoonup> profile"
  contracts :: "address \<times> address \<rightharpoonup> contract_data"
  disputes :: "address \<times> nat \<rightharpoonup> store_dispute"
  notifications :: "notification list"

text \<open>
  Modelled from the spec: the store accessor \<open>StoreProvider\<close>, which is not in this file.
  The spec gives its operations (section 6) and says that it is a document store keyed by
  participant address and by (arbitrator, disputeId) pairs (section 1): profiles are
  kept per participant, contract records per (party, contract), disputes per
  (arbitrator, disputeId). A write replaces the fields it is given, a read returns what
  was written. \<open>getUserProfile\<close> answers \<open>None\<close> (a falsy value) for an unknown
  participant.
\<close>

definition getUserProfile :: "store \<Rightarrow> address \<Rightarrow> profile option" where
  "getUserProfile S account = profiles S account"

text \<open>Modelled from the spec: \<open>getContractByAddress(party, contract)\<close> of the store accessor.\<close>

definition getContractByAddress :: "store \<Rightarrow> address \<Rightarrow> address \<Rightarrow> contract_data option" where
  "getContractByAddress S party contractAddress = contracts S (party, contractAddress)"

text \<open>
  Modelled from the spec: the key of a profile entry, (disputeId, arbitratorAddress), and
  the participant's entry for a dispute.
\<close>

definition sameDispute :: "nat \<Rightarrow> address \<Rightarrow> profile_dispute \<Rightarrow> bool" where
  "sameDispute disputeId arbitratorAddress d =
     (pd_disputeId d = disputeId \<and> pd_arbitratorAddress d = arbitratorAddress)"

definition profileEntry :: "store \<Rightarrow> address \<Rightarrow> address \<Rightarrow> nat \<Rightarrow> profile_dispute option" where
  "profileEntry S account arbitratorAddress disputeId =
     (case profiles S account of
        None \<Rightarrow> None
      | Some p \<Rightarrow> find (sameDispute disputeId arbitratorAddress) (p_disputes p))"

text \<open>
  Modelled from the spec: \<open>getDisputeData(arbitrator, id, account)\<close> of the store accessor.
  It fails while the dispute has not been added to the store (the source says so where it
  catches the failure); otherwise it joins the stored dispute with the participant's
  profile entry, whose fields are absent when there is no entry.
\<close>

definition getDisputeData :: "store \<Rightarrow> address \<Rightarrow> nat \<Rightarrow> address \<Rightarrow> user_data result" where
  "getDisputeData S arbitratorAddress disputeId account =
     (case disputes S (arbitratorAddress, disputeId) of
        None \<Rightarrow> Inl (ErrorObject ''NotFound'')
      | Some doc \<Rightarrow>
          (case profileEntry S account arbitratorAddress disputeId of
             None \<Rightarrow>
               Inr \<lparr>ud_appealDraws = None, ud_netPNK = None,
                    ud_appealCreatedAt = Some (sd_appealCreatedAt doc),
                    ud_appealRuledAt = Some (sd_appealRuledAt doc)\<rparr>
           | Some e \<Rightarrow>
               Inr \<lparr>ud_appealDraws = pd_appealDraws e, ud_netPNK = pd_netPNK e,
                    ud_appealCreatedAt = Some (sd_appealCreatedAt doc),
                    ud_appealRuledAt = Some (sd_appealRuledAt doc)\<rparr>))"

text \<open>
  Modelled from the spec: \<open>updateDispute\<close> of the store accessor. The source passes
  \<open>title\<close>, \<open>status\<close>, \<open>information\<close>, \<open>justification\<close> and \<open>resolutionOptions\<close> of the
  aggregated view, which has no such fields: they are \<open>undefined\<close> and are not kept.
\<close>

definition updateDispute ::
  "store \<Rightarrow> nat \<Rightarrow> address \<Rightarrow> address \<Rightarrow> address \<Rightarrow> address \<Rightarrow>
   nat option list \<Rightarrow> nat option list \<Rightarrow> store_dispute \<times> store" where
  "updateDispute S disputeId arbitratorAddress arbitrableContractAddress pA pB
                 appealCreatedAt appealRuledAt =
     (let doc = \<lparr>sd_arbitrableContractAddress = arbitrableContractAddress,
                 sd_partyA = pA, sd_partyB = pB,
                 sd_appealCreatedAt = appealCreatedAt,
                 sd_appealRuledAt = appealRuledAt\<rparr>
      in (doc, S\<lparr>disputes := (disputes S)((arbitratorAddress, disputeId) \<mapsto> doc)\<rparr>))"

text \<open>
  Modelled from the spec: replacing the entry that has the key of \<open>e\<close>, or adding \<open>e\<close>.
\<close>

fun upsertDispute :: "profile_dispute \<Rightarrow> profile_dispute list \<Rightarrow> profile_dispute list" where
  "upsertDispute e [] = [e]"
| "upsertDispute e (x # xs) =
     (if sameDispute (pd_disputeId e) (pd_arbitratorAddress e) x then e # xs
      else x # upsertDispute e xs)"

text \<open>
  Modelled from the spec: \<open>updateDisputeProfile(account, appealDraws, arbitrator, id, netPNK)\<close>
  of the store accessor: the participant's entry for the dispute is replaced, or added
  when there is none.
\<close>

definition updateDisputeProfile ::
  "store \<Rightarrow> address \<Rightarrow> nat list option list option \<Rightarrow> address \<Rightarrow> nat \<Rightarrow> int \<Rightarrow> store" where
  "updateDisputeProfile S account appealDraws arbitratorAddress disputeId netPNK =
     (let p = (case profiles S account of
                 None \<Rightarrow> \<lparr>p_session = None, p_disputes = []\<rparr>
               | Some p \<Rightarrow> p);
          e = \<lparr>pd_disputeId = disputeId, pd_arbitratorAddress = arbitratorAddress,
               pd_appealDraws = appealDraws, pd_netPNK = Some netPNK\<rparr>
      in S\<lparr>profiles := (profiles S)(account \<mapsto> p\<lparr>p_disputes := upsertDispute e (p_disputes p)\<rparr>)\<rparr>)"

text \<open>
  Modelled from the spec: \<open>newNotification(account, txHash, logIndexOrId, type, message, data)\<close>
  of the store accessor. The notification is kept, and the answer is the array of the
  notifications made (the source reads its element 0).
\<close>

definition newNotification ::
  "store \<Rightarrow> address \<Rightarrow> string \<Rightarrow> nat \<Rightarrow> notification_type \<Rightarrow> string \<Rightarrow>
   nat \<Rightarrow> address \<Rightarrow> nat \<Rightarrow> notification list \<times> store" where
  "newNotification S account txHash logIndex ntype message disputeId contractAddress ruling =
     (let n = \<lparr>n_account = account, n_txHash = txHash, n_logIndex = logIndex,
               n_type = ntype, n_message = message, n_disputeId = disputeId,
               n_contractAddress = contractAddress, n_ruling = ruling\<rparr>
      in ([n], S\<lparr>notifications := notifications S @ [n]\<rparr>))"

subsection \<open>getDrawsForJuror\<close>

text \<open>The body of \<open>for (let draw = 1; draw <= numberOfJurors; draw++)\<close>, over the draws left.\<close>

fun collectDraws ::
  "env \<Rightarrow> address \<Rightarrow> nat \<Rightarrow> address \<Rightarrow> nat list \<Rightarrow> nat list \<Rightarrow> nat list result" where
  "collectDraws L arbitratorAddress disputeId account [] draws = Inr draws"
| "collectDraws L arbitratorAddress disputeId account (draw # rest) draws =
     (case isJurorDrawnForDispute L disputeId draw arbitratorAddress account of
        Inl err \<Rightarrow> Inl err
      | Inr isJuror \<Rightarrow>
          collectDraws L arbitratorAddress disputeId account rest
            (if isJuror then draws @ [draw] else draws))"

definition getDrawsForJuror :: "env \<Rightarrow> address \<Rightarrow> nat \<Rightarrow> address \<Rightarrow> nat list result" where
  "getDrawsForJuror L arbitratorAddress disputeId account =
     (case getAmountOfJurorsForDispute L arbitratorAddress disputeId of
        Inl err \<Rightarrow> Inl err
      | Inr numberOfJurors \<Rightarrow>
          collectDraws L arbitratorAddress disputeId account [1..<Suc numberOfJurors] [])"

subsection \<open>getDeadlineForDispute and getEvidenceForArbitrableContract\<close>

definition getDeadlineForDispute :: "env \<Rightarrow> address \<Rightarrow> nat \<Rightarrow> nat result" where
  "getDeadlineForDispute L arbitratorAddress p =
     (case Arbitrator_getData L arbitratorAddress None of
        Inl err \<Rightarrow> Inl err
      | Inr arbitratorData \<Rightarrow>
          (case getTimeForPeriod L arbitratorAddress p of
             Inl err \<Rightarrow> Inl err
           | Inr t \<Rightarrow> Inr (1000 * (lastPeriodChange arbitratorData + t))))"

definition evidencesOf :: "contract_data option \<Rightarrow> evidence list" where
  "evidencesOf c = (case c of None \<Rightarrow> [] | Some d \<Rightarrow> evidences d)"

definition getEvidenceForArbitrableContract :: "env \<Rightarrow> store \<Rightarrow> address \<Rightarrow> evidence list result" where
  "getEvidenceForArbitrableContract L S arbitrableContractAddress =
     (case checkArbitrableWrappersSet L of
        Inl err \<Rightarrow> Inl err
      | Inr _ \<Rightarrow>
          (case ArbitrableContract_getData L arbitrableContractAddress of
             Inl err \<Rightarrow> Inl err
           | Inr arbitrableContractData \<Rightarrow>
               (let partyAContractData =
                      getContractByAddress S (partyA arbitrableContractData) arbitrableContractAddress;
                    partyBContractData =
                      getContractByAddress S (partyB arbitrableContractData) arbitrableContractAddress;
                    partyAEvidence =
                      map (\<lambda>e. e\<lparr>submitter := Some (partyA arbitrableContractData)\<rparr>)
                          (evidencesOf partyAContractData);
                    partyBEvidence =
                      map (\<lambda>e. e\<lparr>submitter := Some (partyB arbitrableContractData)\<rparr>)
                          (evidencesOf partyBContractData)
                in Inr (partyAEvidence @ partyBEvidence))))"

subsection \<open>getDataForDispute\<close>

record appeal_ruling =
  ar_ruling :: nat
  ar_voteCounter :: "nat list option"
  ar_ruledAt :: "nat option"
  ar_deadline :: nat

record appeal_juror =
  aj_fee :: nat
  aj_draws :: "nat list"
  aj_canRule :: bool

text \<open>The object that \<open>getDataForDispute\<close> returns, field by field.\<close>

record dispute_view =
  v_arbitrableContractAddress :: address
  v_arbitrableContractStatus :: nat
  v_arbitratorAddress :: address
  v_partyA :: address
  v_partyB :: address
  v_disputeId :: nat
  v_firstSession :: nat
  v_lastSession :: nat
  v_numberOfAppeals :: nat
  v_disputeState :: nat
  v_disputeStatus :: nat
  v_appealRulings :: "appeal_ruling list"
  v_appealJuror :: "appeal_juror list"
  v_description :: "string option"
  v_email :: "string option"
  v_evidence :: "evidence list"
  v_netPNK :: int
  v_appealCreatedAt :: "nat option list"
  v_appealRuledAt :: "nat option list"

text \<open>\<open>appealDraws[appeal] || []\<close>\<close>

definition drawsOfAppeal :: "nat list option list \<Rightarrow> nat \<Rightarrow> nat list" where
  "drawsOfAppeal appealDraws appeal =
     (case array_get appealDraws appeal of None \<Rightarrow> [] | Some ds \<Rightarrow> ds)"

text \<open>
  The body of \<open>for (let appeal = 0; appeal <= lastSession - firstSession; appeal++)\<close>, over
  the appeals left. \<open>appeal\<close> counts up from 0, so \<open>appealRulings[appeal] = ...\<close> and
  \<open>appealJuror[appeal] = ...\<close> append to the two arrays. The test of the source is
  \<open>appeal === lastSession\<close>.
\<close>

fun appealLoop ::
  "env \<Rightarrow> address \<Rightarrow> nat \<Rightarrow> address \<Rightarrow> dispute \<Rightarrow> nat \<Rightarrow>
   nat list option list \<Rightarrow> nat option list \<Rightarrow> nat list \<Rightarrow>
   appeal_ruling list \<Rightarrow> appeal_juror list \<Rightarrow>
   (appeal_ruling list \<times> appeal_juror list) result" where
  "appealLoop L arbitratorAddress disputeId account d lastSession appealDraws appealRuledAt
              [] appealRulings appealJuror = Inr (appealRulings, appealJuror)"
| "appealLoop L arbitratorAddress disputeId account d lastSession appealDraws appealRuledAt
              (appeal # rest) appealRulings appealJuror =
     (case currentRulingForDispute L arbitratorAddress disputeId appeal of
        Inl err \<Rightarrow> Inl err
      | Inr ruling \<Rightarrow>
          (case getDeadlineForDispute L arbitratorAddress appeal of
             Inl err \<Rightarrow> Inl err
           | Inr deadline \<Rightarrow>
               (let baseFee = arbitrationFeePerJuror d;
                    draws = drawsOfAppeal appealDraws appeal
                in case (if appeal = lastSession \<and> length draws > 0
                         then canRuleDispute L account disputeId draws
                         else Inr False) of
                     Inl err \<Rightarrow> Inl err
                   | Inr canRule \<Rightarrow>
                       appealLoop L arbitratorAddress disputeId account d lastSession
                         appealDraws appealRuledAt rest
                         (appealRulings @
                            [\<lparr>ar_ruling = ruling,
                              ar_voteCounter =
                                (if appeal < length (voteCounters d)
                                 then Some (voteCounters d ! appeal) else None),
                              ar_ruledAt = array_get appealRuledAt appeal,
                              ar_deadline = deadline\<rparr>])
                         (appealJuror @
                            [\<lparr>aj_fee = baseFee * length draws, aj_draws = draws,
                              aj_canRule = canRule\<rparr>]))))"

text \<open>
  The \<open>try\<close> block that reads the participant's stored record: any failure inside it
  is caught and leaves the defaults. \<open>x || []\<close> and \<open>x || 0\<close> replace a falsy value.
\<close>

definition storedUserData ::
  "store \<Rightarrow> address \<Rightarrow> nat \<Rightarrow> address \<Rightarrow>
   nat list option list \<times> int \<times> nat option list \<times> nat option list" where
  "storedUserData S arbitratorAddress disputeId account =
     (if account \<noteq> [] then
        (case getDisputeData S arbitratorAddress disputeId account of
           Inl err \<Rightarrow> ([], 0, [], [])
         | Inr userData \<Rightarrow>
             (case ud_appealDraws userData of None \<Rightarrow> [] | Some a \<Rightarrow> a,
              case ud_netPNK userData of None \<Rightarrow> 0 | Some n \<Rightarrow> n,
              case ud_appealCreatedAt userData of None \<Rightarrow> [] | Some a \<Rightarrow> a,
              case ud_appealRuledAt userData of None \<Rightarrow> [] | Some a \<Rightarrow> a))
      else ([], 0, [], []))"

definition getDataForDispute ::
  "env \<Rightarrow> store \<Rightarrow> address \<Rightarrow> nat \<Rightarrow> address \<Rightarrow> dispute_view result" where
  "getDataForDispute L S arbitratorAddress disputeId account =
     (case checkArbitratorWrappersSet L of
        Inl err \<Rightarrow> Inl err
      | Inr _ \<Rightarrow>
     (case checkArbitrableWrappersSet L of
        Inl err \<Rightarrow> Inl err
      | Inr _ \<Rightarrow>
     (case getDispute L arbitratorAddress disputeId of
        Inl err \<Rightarrow> Inl err
      | Inr None \<Rightarrow>
          Inl (ErrorObject (''Dispute with arbitrator: '' @ arbitratorAddress @
                            '' and disputeId: '' @ showNat disputeId @ '' does not exist''))
      | Inr (Some d) \<Rightarrow>
     (let arbitrableContractAddress = arbitratedContract d in
      case ArbitrableContract_getData L arbitrableContractAddress of
        Inl err \<Rightarrow> Inl err
      | Inr arbitrableContractData \<Rightarrow>
     (let constractStoreData =
            getContractByAddress S (partyA arbitrableContractData) arbitrableContractAddress;
          (appealDraws, netPNK, appealCreatedAt, appealRuledAt) =
            storedUserData S arbitratorAddress disputeId account
      in case getEvidenceForArbitrableContract L S arbitrableContractAddress of
        Inl err \<Rightarrow> Inl err
      | Inr evidence \<Rightarrow>
     (let firstSession' = firstSession d;
          lastSession = firstSession d + numberOfAppeals d
      in case appealLoop L arbitratorAddress disputeId account d lastSession
                appealDraws appealRuledAt [0..<Suc (lastSession - firstSession')] [] [] of
        Inl err \<Rightarrow> Inl err
      | Inr (appealRulings, appealJuror) \<Rightarrow>
          Inr \<lparr>v_arbitrableContractAddress = arbitrableContractAddress,
               v_arbitrableContractStatus = contractStatus arbitrableContractData,
               v_arbitratorAddress = arbitratorAddress,
               v_partyA = partyA arbitrableContractData,
               v_partyB = partyB arbitrableContractData,
               v_disputeId = disputeId,
               v_firstSession = firstSession',
               v_lastSession = lastSession,
               v_numberOfAppeals = numberOfAppeals d,
               v_disputeState = state d,
               v_disputeStatus = status d,
               v_appealRulings = appealRulings,
               v_appealJuror = appealJuror,
               v_description =
                 (case constractStoreData of None \<Rightarrow> None | Some c \<Rightarrow> description c),
               v_email = (case constractStoreData of None \<Rightarrow> None | Some c \<Rightarrow> email c),
               v_evidence = evidence,
               v_netPNK = netPNK,
               v_appealCreatedAt = appealCreatedAt,
               v_appealRuledAt = appealRuledAt\<rparr>))))))"

subsection \<open>_updateStoreForDispute\<close>

text \<open>\<open>if (createdAt)\<close>: an absent timestamp and the number 0 are both falsy.\<close>

definition truthy :: "nat option \<Rightarrow> bool" where
  "truthy t = (case t of None \<Rightarrow> False | Some n \<Rightarrow> n \<noteq> 0)"

text \<open>
  The function writes to the store twice, and a failure between the two writes leaves
  the first one done: the result is what is returned or thrown, paired with the store
  as it is left.
\<close>

definition updateStoreForDispute ::
  "env \<Rightarrow> store \<Rightarrow> address \<Rightarrow> nat \<Rightarrow> address \<Rightarrow> nat option \<Rightarrow> nat option \<Rightarrow>
   store_dispute result \<times> store" where
  "updateStoreForDispute L S arbitratorAddress disputeId account createdAt ruledAt =
     (case getDataForDispute L S arbitratorAddress disputeId account of
        Inl err \<Rightarrow> (Inl err, S)
      | Inr disputeData \<Rightarrow>
     (let appealCreatedAt =
            (if truthy createdAt
             then array_set (v_appealCreatedAt disputeData) (v_numberOfAppeals disputeData) createdAt
             else v_appealCreatedAt disputeData);
          appealRuledAt =
            (if truthy ruledAt
             then array_set (v_appealRuledAt disputeData) (v_numberOfAppeals disputeData) ruledAt
             else v_appealRuledAt disputeData);
          (dispute, S1) =
            updateDispute S (v_disputeId disputeData) (v_arbitratorAddress disputeData)
              (v_arbitrableContractAddress disputeData) (v_partyA disputeData)
              (v_partyB disputeData) appealCreatedAt appealRuledAt
      in case getDisputeData S1 arbitratorAddress disputeId account of
        Inl err \<Rightarrow> (Inl err, S1)
      | Inr storedDisputeData \<Rightarrow>
     (case getSession L arbitratorAddress of
        Inl err \<Rightarrow> (Inl err, S1)
      | Inr currentSession \<Rightarrow>
     (case (if v_lastSession disputeData = currentSession then
              (case getDrawsForJuror L arbitratorAddress disputeId account of
                 Inl err \<Rightarrow> Inl err
               | Inr sessionDraws \<Rightarrow>
                   Inr (Some (array_set
                                (case ud_appealDraws storedDisputeData of
                                   None \<Rightarrow> [] | Some a \<Rightarrow> a)
                                (v_numberOfAppeals disputeData) (Some sessionDraws))))
            else Inr (ud_appealDraws storedDisputeData)) of
        Inl err \<Rightarrow> (Inl err, S1)
      | Inr appealDraws \<Rightarrow>
          (Inr dispute,
           updateDisputeProfile S1 account appealDraws (v_arbitratorAddress disputeData)
             (v_disputeId disputeData) (v_netPNK disputeData))))))"

subsection \<open>The event handlers\<close>


record token_shift_event =
  ts_disputeID :: nat
  ts_account :: address
  ts_amount :: int

record new_period_event =
  np_period :: nat
  np_transactionHash :: string
  np_blockNumber :: nat


text \<open>
  \<open>_tokenShiftHandler\<close>. Reading \<open>.disputes\<close> of a falsy profile is a \<open>TypeError\<close>.
\<close>

definition tokenShiftHandler ::
  "store \<Rightarrow> address \<Rightarrow> address \<Rightarrow> token_shift_event \<Rightarrow> unit result \<times> store" where
  "tokenShiftHandler S contractAddress address event =
     (let disputeId = ts_disputeID event;
          account = ts_account event;
          amountShift = ts_amount event
      in if account = address then
           (case getUserProfile S address of
              None \<Rightarrow> (Inl (ErrorObject ''TypeError''), S)
            | Some userProfile \<Rightarrow>
                (let disputeIndex =
                       findIndex (\<lambda>dispute. pd_disputeId dispute = disputeId \<and>
                                            pd_arbitratorAddress dispute = contractAddress)
                                 (p_disputes userProfile)
                 in if disputeIndex < 0 then (Inr (), S)
                    else
                      (let dispute = p_disputes userProfile ! nat disputeIndex
                       in (Inr (),
                           updateDisputeProfile S address (pd_appealDraws dispute)
                             (pd_arbitratorAddress dispute) (pd_disputeId dispute)
                             ((case pd_netPNK dispute of None \<Rightarrow> 0 | Some n \<Rightarrow> n)
                              + amountShift)))))
         else (Inr (), S))"

text \<open>Token-shift events delivered one after the other, each to the handler.\<close>

fun deliverTokenShifts ::
  "store \<Rightarrow> address \<Rightarrow> address \<Rightarrow> token_shift_event list \<Rightarrow> store" where
  "deliverTokenShifts S contractAddress address [] = S"
| "deliverTokenShifts S contractAddress address (event # events) =
     deliverTokenShifts (snd (tokenShiftHandler S contractAddress address event))
       contractAddress address events"

subsection \<open>getDisputesForJuror\<close>




subsection \<open>The new-period handler\<close>

text \<open>
  How one pass through the body of a \<open>while (1)\<close> loop ends: it goes on to the next pass,
  it breaks, or it throws out of the loop. Each carries the loop's state.
\<close>

datatype 'st pass = Continue 'st | Break 'st | Throw thrown 'st

text \<open>
  The outer \<open>catch\<close> of the loop in \<open>_disputeRulingHandler\<close>:
  \<open>if (err === 'DisputeOutOfRange') break; throw err\<close>. The comparison is with a string.
\<close>

definition rulingCatch :: "thrown \<Rightarrow> 'st \<Rightarrow> 'st pass" where
  "rulingCatch err st = (if err = StringValue ''DisputeOutOfRange'' then Break st else Throw err st)"

text \<open>
  One pass of the loop of \<open>_disputeRulingHandler\<close>. The state is the dispute id, the store
  and the arguments the callback was called with so far (\<open>notification[0]\<close>, which is
  \<open>undefined\<close> for an empty array; an array is truthy). A failure of \<open>getDispute\<close> is caught
  by the inner \<open>catch\<close>, which throws \<open>new Error('DisputeOutOfRange')\<close> to the outer one.
  \<open>userProfile\<close> was read once before the loop; reading \<open>.arbitratedContract\<close> of a falsy
  dispute or \<open>.disputes\<close> of a falsy profile is a \<open>TypeError\<close>.
\<close>

definition rulingPass ::
  "env \<Rightarrow> address \<Rightarrow> address \<Rightarrow> bool \<Rightarrow> new_period_event \<Rightarrow> profile option \<Rightarrow> nat \<Rightarrow>
   nat \<times> store \<times> notification option list \<Rightarrow> (nat \<times> store \<times> notification option list) pass" where
  "rulingPass L contractAddress address notificationCallback event userProfile currentSession st =
     (case st of (disputeId, S, called) \<Rightarrow>
      (case getDispute L contractAddress disputeId of
         Inl err \<Rightarrow> rulingCatch (ErrorObject ''DisputeOutOfRange'') st
       | Inr None \<Rightarrow> rulingCatch (ErrorObject ''TypeError'') st
       | Inr (Some d) \<Rightarrow>
           if arbitratedContract d = NULL_ADDRESS L then Break st
           else if firstSession d + numberOfAppeals d \<noteq> currentSession
           then Continue (disputeId + 1, S, called)
           else
             (case currentRulingForDispute L contractAddress disputeId (numberOfAppeals d) of
                Inl err \<Rightarrow> rulingCatch err st
              | Inr ruling \<Rightarrow>
                  (case userProfile of
                     None \<Rightarrow> rulingCatch (ErrorObject ''TypeError'') st
                   | Some up \<Rightarrow>
                       if findIndex (\<lambda>dispute. pd_disputeId dispute = disputeId \<and>
                                              pd_arbitratorAddress dispute = contractAddress)
                                    (p_disputes up) \<ge> 0
                       then
                         (case newNotification S address (np_transactionHash event) disputeId
                                 APPEAL_POSSIBLE ''A ruling has been made. Appeal is possible''
                                 disputeId contractAddress ruling of
                            (notification, S1) \<Rightarrow>
                              (case getBlock L (np_blockNumber event) of
                                 Inl err \<Rightarrow> rulingCatch err (disputeId, S1, called)
                               | Inr blk \<Rightarrow>
                                   (case updateStoreForDispute L S1 contractAddress disputeId
                                           address None (Some (timestamp blk * 1000)) of
                                      (Inl err, S2) \<Rightarrow> rulingCatch err (disputeId, S2, called)
                                    | (Inr _, S2) \<Rightarrow>
                                        Continue
                                          (disputeId + 1, S2,
                                           if notificationCallback
                                           then called @
                                                [case notification of
                                                   [] \<Rightarrow> None | n # _ \<Rightarrow> Some n]
                                           else called))))
                       else Continue (disputeId + 1, S, called)))))"

text \<open>The loop itself; \<open>None\<close> is a loop that never ends.\<close>

partial_function (option) rulingWhile ::
  "env \<Rightarrow> address \<Rightarrow> address \<Rightarrow> bool \<Rightarrow> new_period_event \<Rightarrow> profile option \<Rightarrow> nat \<Rightarrow>
   nat \<times> store \<times> notification option list \<Rightarrow>
   (unit result \<times> nat \<times> store \<times> notification option list) option" where
  "rulingWhile L contractAddress address notificationCallback event userProfile currentSession st =
     (case rulingPass L contractAddress address notificationCallback event userProfile
             currentSession st of
        Continue st' \<Rightarrow>
          rulingWhile L contractAddress address notificationCallback event userProfile
            currentSession st'
      | Break st' \<Rightarrow> Some (Inr (), st')
      | Throw err st' \<Rightarrow> Some (Inl err, st'))"

declare rulingWhile.simps [code]

text \<open>
  \<open>_disputeRulingHandler\<close>: what it returns or throws, the store it leaves and the
  arguments of its calls of the callback. \<open>notificationCallback\<close> says whether a callback
  was given.
\<close>

definition disputeRulingHandler ::
  "env \<Rightarrow> store \<Rightarrow> address \<Rightarrow> address \<Rightarrow> bool \<Rightarrow> new_period_event \<Rightarrow>
   (unit result \<times> store \<times> notification option list) option" where
  "disputeRulingHandler L S contractAddress address notificationCallback event =
     (if np_period event = PERIOD_APPEAL L then
        (case checkArbitratorWrappersSet L of
           Inl err \<Rightarrow> Some (Inl err, S, [])
         | Inr _ \<Rightarrow>
             (let userProfile = getUserProfile S address in
              case Arbitrator_getData L contractAddress (Some address) of
                Inl err \<Rightarrow> Some (Inl err, S, [])
              | Inr arbitratorData \<Rightarrow>
                  map_option (\<lambda>(r, disputeId, S', called). (r, S', called))
                    (rulingWhile L contractAddress address notificationCallback event
                       userProfile (session arbitratorData) (0, S, []))))
      else Some (Inr (), S, []))"

text \<open>
  The state of the loop after \<open>n\<close> passes that all went on to the next one (\<open>None\<close> when
  one of them broke or threw).
\<close>

fun rulingPasses ::
  "env \<Rightarrow> address \<Rightarrow> address \<Rightarrow> bool \<Rightarrow> new_period_event \<Rightarrow> profile option \<Rightarrow> nat \<Rightarrow>
   nat \<Rightarrow> nat \<times> store \<times> notification option list \<Rightarrow> (nat \<times> store \<times> notification option list) option" where
  "rulingPasses L contractAddress address notificationCallback event userProfile currentSession
     0 st = Some st"
| "rulingPasses L contractAddress address notificationCallback event userProfile currentSession
     (Suc n) st =
     (case rulingPass L contractAddress address notificationCallback event userProfile
             currentSession st of
        Continue st' \<Rightarrow>
          rulingPasses L contractAddress address notificationCallback event userProfile
            currentSession n st'
      | Break st' \<Rightarrow> None
      | Throw err st' \<Rightarrow> None)"


section \<open>What the statements speak about\<close>

subsection \<open>Readings of the store\<close>

text \<open>
  The timestamps the store holds for a dispute, and the draws and the token balance it
  holds for a participant in a dispute. A dispute that is not in the store has none.
  \<open>storedDrawsField\<close> is the \<open>appealDraws\<close> field of the participant's entry as it is,
  possibly absent; \<open>storedDraws\<close> reads an absent field as the empty array.
\<close>

definition storedCreatedAt :: "store \<Rightarrow> address \<Rightarrow> nat \<Rightarrow> nat option list" where
  "storedCreatedAt S arbitratorAddress disputeId =
     (case disputes S (arbitratorAddress, disputeId) of None \<Rightarrow> [] | Some doc \<Rightarrow> sd_appealCreatedAt doc)"

definition storedRuledAt :: "store \<Rightarrow> address \<Rightarrow> nat \<Rightarrow> nat option list" where
  "storedRuledAt S arbitratorAddress disputeId =
     (case disputes S (arbitratorAddress, disputeId) of None \<Rightarrow> [] | Some doc \<Rightarrow> sd_appealRuledAt doc)"

definition storedDrawsField :: "store \<Rightarrow> address \<Rightarrow> address \<Rightarrow> nat \<Rightarrow> nat list option list option" where
  "storedDrawsField S account arb i =
     (case profileEntry S account arb i of None \<Rightarrow> None | Some e \<Rightarrow> pd_appealDraws e)"

definition storedDraws :: "store \<Rightarrow> address \<Rightarrow> address \<Rightarrow> nat \<Rightarrow> nat list option list" where
  "storedDraws S account arbitratorAddress disputeId =
     (case profileEntry S account arbitratorAddress disputeId of
        None \<Rightarrow> []
      | Some e \<Rightarrow> (case pd_appealDraws e of None \<Rightarrow> [] | Some a \<Rightarrow> a))"



text \<open>
  The two arrays that \<open>_updateStoreForDispute\<close> hands to \<open>updateDispute\<close>, from the aggregated
  view and the two optional timestamps.
\<close>

definition mergedCreatedAt :: "dispute_view \<Rightarrow> nat option \<Rightarrow> nat option list" where
  "mergedCreatedAt v c =
     (if truthy c then array_set (v_appealCreatedAt v) (v_numberOfAppeals v) c
      else v_appealCreatedAt v)"

definition mergedRuledAt :: "dispute_view \<Rightarrow> nat option \<Rightarrow> nat option list" where
  "mergedRuledAt v r =
     (if truthy r then array_set (v_appealRuledAt v) (v_numberOfAppeals v) r
      else v_appealRuledAt v)"

subsection \<open>Readings of the ledger\<close>





text \<open>
  The entry of \<open>appealJuror\<close> for one appeal, as the loop of \<open>getDataForDispute\<close> makes it.
\<close>

definition jurorEntry :: "env \<Rightarrow> address \<Rightarrow> nat \<Rightarrow> dispute \<Rightarrow> nat \<Rightarrow> nat list option list \<Rightarrow> nat \<Rightarrow> appeal_juror" where
  "jurorEntry L account i d ls aDraws a =
     \<lparr>aj_fee = arbitrationFeePerJuror d * length (drawsOfAppeal aDraws a),
      aj_draws = drawsOfAppeal aDraws a,
      aj_canRule = (a = ls \<and> drawsOfAppeal aDraws a \<noteq> [] \<and>
                    canRuleDispute L account i (drawsOfAppeal aDraws a) = Inr True)\<rparr>"

subsection \<open>A small ledger and store\<close>

text \<open>
  Arbitrator \<open>0xK\<close> is in session 1, in the appeal period (3). Dispute 0 began in session
  0 and has been appealed once, so it is in session 1; dispute 1 is in session 2; dispute
  2 is in session 1; from id 3 on the ledger answers the null arbitrated contract. Juror
  \<open>0xJ\<close> holds draw 2 of dispute 0. A block's timestamp is its number. The store tracks
  dispute 0 for \<open>0xJ\<close>.
\<close>

definition exampleDispute :: dispute where
  "exampleDispute =
     \<lparr>arbitratedContract = ''0xC'', firstSession = 0, numberOfAppeals = 1,
      voteCounters = [ [1, 0], [0, 1] ], arbitrationFeePerJuror = 10, state = 0, status = 0\<rparr>"

definition exampleLedger :: env where
  "exampleLedger =
     \<lparr>NULL_ADDRESS = ''0x'', PERIOD_APPEAL = 3,
      arbitratorWrappersSet = True, arbitrableWrappersSet = True,
      Arbitrator_getData = (\<lambda>a acct. Inr \<lparr>period = 3, session = 1, lastPeriodChange = 100\<rparr>),
      getDispute =
        (\<lambda>a i. if i = 0 then Inr (Some exampleDispute)
               else if i = 1 then Inr (Some (exampleDispute\<lparr>firstSession := 1\<rparr>))
               else if i = 2 then Inr (Some (exampleDispute\<lparr>firstSession := 1, numberOfAppeals := 0\<rparr>))
               else Inr (Some (exampleDispute\<lparr>arbitratedContract := ''0x''\<rparr>))),
      currentRulingForDispute = (\<lambda>a i k. Inr 1),
      getAmountOfJurorsForDispute = (\<lambda>a i. Inr 3),
      isJurorDrawnForDispute = (\<lambda>i draw a acct. Inr (acct = ''0xJ'' \<and> i = 0 \<and> draw = 2)),
      canRuleDispute = (\<lambda>acct i draws. Inr True),
      getSession = (\<lambda>a. Inr 1),
      getTimeForPeriod = (\<lambda>a p. Inr 50),
      getBlock = (\<lambda>b. Inr \<lparr>timestamp = b\<rparr>),
      ArbitrableContract_getData =
        (\<lambda>c. Inr \<lparr>partyA = ''0xA'', partyB = ''0xB'', contractStatus = 0\<rparr>)\<rparr>"

text \<open>The same ledger with a failing ruling query, a failing dispute query, and no dispute at all.\<close>

definition rulingFailsLedger :: env where
  "rulingFailsLedger =
     exampleLedger\<lparr>currentRulingForDispute := (\<lambda>a i k. Inl (ErrorObject ''timeout''))\<rparr>"

definition disputeFailsLedger :: env where
  "disputeFailsLedger =
     exampleLedger\<lparr>getDispute := (\<lambda>a i. Inl (ErrorObject ''timeout''))\<rparr>"


definition exampleStore :: store where
  "exampleStore =
     \<lparr>profiles = [''0xJ'' \<mapsto> \<lparr>p_session = Some 1, p_disputes =
                     [\<lparr>pd_disputeId = 0, pd_arbitratorAddress = ''0xK'',
                       pd_appealDraws = Some [Some [1], Some [2] ], pd_netPNK = Some 5\<rparr>]\<rparr>],
      contracts = [(''0xA'', ''0xC'') \<mapsto> \<lparr>description = Some ''rent'', email = None,
                     evidences = [\<lparr>submitter = Some ''0xB'', content = ''photo''\<rparr>]\<rparr>,
                   (''0xB'', ''0xC'') \<mapsto> \<lparr>description = None, email = None,
                     evidences = [\<lparr>submitter = None, content = ''receipt''\<rparr>]\<rparr>],
      disputes = [(''0xK'', 0) \<mapsto> \<lparr>sd_arbitrableContractAddress = ''0xC'', sd_partyA = ''0xA'',
                     sd_partyB = ''0xB'', sd_appealCreatedAt = [Some 1000, Some 1500],
                     sd_appealRuledAt = [Some 1200]\<rparr>],
      notifications = []\<rparr>"

definition emptyStore :: store where
  "emptyStore =
     \<lparr>profiles = Map.empty, contracts = Map.empty, disputes = Map.empty, notifications = []\<rparr>"


definition exampleNewPeriod :: new_period_event where
  "exampleNewPeriod = \<lparr>np_period = 3, np_transactionHash = ''0xT'', np_blockNumber = 4\<rparr>"

definition untrackedShift :: token_shift_event where
  "untrackedShift = \<lparr>ts_disputeID = 12, ts_account = ''0xJ'', ts_amount = 50\<rparr>"


section \<open>Properties\<close>

lemmas model_defs = checkArbitratorWrappersSet_def checkArbitrableWrappersSet_def
  getUserProfile_def getContractByAddress_def profileEntry_def getDisputeData_def
  updateDispute_def updateDisputeProfile_def getDrawsForJuror_def
  getDeadlineForDispute_def evidencesOf_def getEvidenceForArbitrableContract_def
  drawsOfAppeal_def storedUserData_def getDataForDispute_def truthy_def
  updateStoreForDispute_def array_get_def array_set_def sameDispute_def Let_def
  upt_conv_Cons

lemmas example_defs = exampleDispute_def exampleLedger_def exampleStore_def

subsection \<open>Arrays, \<open>findIndex\<close> and the store accessor\<close>




lemma findIndex_ge: "- 1 \<le> findIndex P xs"
  by (induction xs) (auto simp: Let_def)

lemma findIndex_none: "findIndex P xs < 0 \<longleftrightarrow> find P xs = None"
  using findIndex_ge [of P] by (induction xs) (auto simp: Let_def)





lemma disputes_updateDisputeProfile:
  "disputes (updateDisputeProfile S acct draws arb i n) = disputes S"
  by (simp add: updateDisputeProfile_def Let_def)

lemma updateDispute_store:
  "disputes (snd (updateDispute S i arb c pa pb ca ra)) (arb, i) =
     Some \<lparr>sd_arbitrableContractAddress = c, sd_partyA = pa, sd_partyB = pb,
           sd_appealCreatedAt = ca, sd_appealRuledAt = ra\<rparr>"
  "profiles (snd (updateDispute S i arb c pa pb ca ra)) = profiles S"
  by (simp_all add: updateDispute_def Let_def)

lemma profileEntry_updateDispute:
  "profileEntry (snd (updateDispute S i arb c pa pb ca ra)) acct arb' i' = profileEntry S acct arb' i'"
  by (simp add: profileEntry_def updateDispute_store)

subsection \<open>The aggregated view\<close>

lemma getData_fields:
  assumes "getDataForDispute L S arb i account = Inr v"
  shows "\<exists>d. getDispute L arb i = Inr (Some d) \<and> v_firstSession v = firstSession d
           \<and> v_numberOfAppeals v = numberOfAppeals d
           \<and> v_lastSession v = firstSession d + numberOfAppeals d
           \<and> v_disputeId v = i \<and> v_arbitratorAddress v = arb
           \<and> v_appealCreatedAt v = fst (snd (snd (storedUserData S arb i account)))
           \<and> v_appealRuledAt v = snd (snd (snd (storedUserData S arb i account)))
           \<and> v_netPNK v = fst (snd (storedUserData S arb i account))"
  using assms
  by (auto simp: getDataForDispute_def Let_def split: sum.splits option.splits prod.splits)

lemma storedUserData_arrays:
  "account \<noteq> [] \<Longrightarrow>
   fst (snd (snd (storedUserData S arb i account))) = storedCreatedAt S arb i \<and>
   snd (snd (snd (storedUserData S arb i account))) = storedRuledAt S arb i"
  by (auto simp: storedUserData_def getDisputeData_def storedCreatedAt_def storedRuledAt_def
      split: option.splits sum.splits)

lemma getData_appealLoop:
  assumes "getDataForDispute L S arb i account = Inr v"
  shows "\<exists>d. getDispute L arb i = Inr (Some d) \<and>
           v_firstSession v = firstSession d \<and>
           v_lastSession v = firstSession d + numberOfAppeals d \<and>
           appealLoop L arb i account d (firstSession d + numberOfAppeals d)
             (fst (storedUserData S arb i account))
             (snd (snd (snd (storedUserData S arb i account))))
             [0..<Suc (firstSession d + numberOfAppeals d - firstSession d)] [] [] =
           Inr (v_appealRulings v, v_appealJuror v)"
  using assms
  by (auto simp: getDataForDispute_def Let_def split: sum.splits option.splits prod.splits)

lemma appealLoop_jurors:
  "appealLoop L arb i account d ls aDraws aRuled as rs js = Inr (rs', js') \<Longrightarrow>
   js' = js @ map (jurorEntry L account i d ls aDraws) as"
proof (induction as arbitrary: rs js)
  case Nil
  then show ?case by simp
next
  case (Cons a as)
  from Cons.prems obtain ruling deadline canRule where
    c: "(if a = ls \<and> length (drawsOfAppeal aDraws a) > 0
         then canRuleDispute L account i (drawsOfAppeal aDraws a) else Inr False) = Inr canRule"
    and rest: "appealLoop L arb i account d ls aDraws aRuled as
       (rs @ [\<lparr>ar_ruling = ruling,
               ar_voteCounter = (if a < length (voteCounters d)
                                 then Some (voteCounters d ! a) else None),
               ar_ruledAt = array_get aRuled a, ar_deadline = deadline\<rparr>])
       (js @ [\<lparr>aj_fee = arbitrationFeePerJuror d * length (drawsOfAppeal aDraws a),
               aj_draws = drawsOfAppeal aDraws a, aj_canRule = canRule\<rparr>]) = Inr (rs', js')"
    by (auto simp: Let_def split: sum.splits)
  from c have "canRule = (a = ls \<and> drawsOfAppeal aDraws a \<noteq> [] \<and>
                    canRuleDispute L account i (drawsOfAppeal aDraws a) = Inr True)"
    by (auto split: if_splits)
  with Cons.IH [OF rest] show ?case by (simp add: jurorEntry_def)
qed

lemma deadline_canRule_update [simp]:
  "getDeadlineForDispute (L\<lparr>canRuleDispute := f\<rparr>) arb p = getDeadlineForDispute L arb p"
  by (simp add: getDeadlineForDispute_def cong: sum.case_cong)

lemma evidence_canRule_update [simp]:
  "getEvidenceForArbitrableContract (L\<lparr>canRuleDispute := f\<rparr>) S c =
   getEvidenceForArbitrableContract L S c"
  by (simp add: getEvidenceForArbitrableContract_def checkArbitrableWrappersSet_def)

lemma appealLoop_canRule_update:
  "\<forall>a\<in>set as. a = ls \<longrightarrow> drawsOfAppeal aDraws a \<noteq> [] \<longrightarrow>
      f account i (drawsOfAppeal aDraws a) = canRuleDispute L account i (drawsOfAppeal aDraws a) \<Longrightarrow>
   appealLoop (L\<lparr>canRuleDispute := f\<rparr>) arb i account d ls aDraws aRuled as rs js =
   appealLoop L arb i account d ls aDraws aRuled as rs js"
proof (induction as arbitrary: rs js)
  case Nil
  then show ?case by simp
next
  case (Cons a as)
  then have c: "(if a = ls \<and> drawsOfAppeal aDraws a \<noteq> []
         then canRuleDispute (L\<lparr>canRuleDispute := f\<rparr>) account i (drawsOfAppeal aDraws a)
         else Inr False) =
        (if a = ls \<and> drawsOfAppeal aDraws a \<noteq> []
         then canRuleDispute L account i (drawsOfAppeal aDraws a) else Inr False)"
    by auto
  from Cons have ih: "\<And>rs js. appealLoop (L\<lparr>canRuleDispute := f\<rparr>) arb i account d ls aDraws aRuled as rs js =
   appealLoop L arb i account d ls aDraws aRuled as rs js" by simp
  show ?case
    by (simp add: Let_def c ih cong: sum.case_cong split del: if_split)
qed

lemma getData_canRule_update:
  assumes "\<And>d. getDispute L arb i = Inr (Some d) \<Longrightarrow>
      appealLoop (L\<lparr>canRuleDispute := f\<rparr>) arb i account d (firstSession d + numberOfAppeals d)
        (fst (storedUserData S arb i account)) (snd (snd (snd (storedUserData S arb i account))))
        [0..<Suc (firstSession d + numberOfAppeals d - firstSession d)] [] [] =
      appealLoop L arb i account d (firstSession d + numberOfAppeals d)
        (fst (storedUserData S arb i account)) (snd (snd (snd (storedUserData S arb i account))))
        [0..<Suc (firstSession d + numberOfAppeals d - firstSession d)] [] []"
  shows "getDataForDispute (L\<lparr>canRuleDispute := f\<rparr>) S arb i account =
         getDataForDispute L S arb i account"
proof (cases "getDispute L arb i")
  case (Inl e)
  then show ?thesis
    by (simp add: getDataForDispute_def checkArbitratorWrappersSet_def
        checkArbitrableWrappersSet_def)
next
  case (Inr y)
  show ?thesis
  proof (cases y)
    case None
    with Inr show ?thesis
      by (simp add: getDataForDispute_def checkArbitratorWrappersSet_def
          checkArbitrableWrappersSet_def)
  next
    case (Some d)
    with Inr have g: "getDispute L arb i = Inr (Some d)" by simp
    obtain a b c e where u: "storedUserData S arb i account = (a, b, c, e)"
      by (cases "storedUserData S arb i account") auto
    from assms [OF g] u show ?thesis
      by (simp add: getDataForDispute_def checkArbitratorWrappersSet_def
          checkArbitrableWrappersSet_def g Let_def cong: sum.case_cong)
  qed
qed


text \<open>
  C8. Every view that \<open>getDataForDispute\<close> returns has \<open>lastSession = firstSession +
  numberOfAppeals\<close>, with \<open>firstSession\<close> and \<open>numberOfAppeals\<close> the values of the ledger's
  dispute record.
\<close>

theorem lastSession_derived:
  "getDataForDispute L S arbitratorAddress disputeId account = Inr v \<Longrightarrow>
   \<exists>d. getDispute L arbitratorAddress disputeId = Inr (Some d) \<and>
       v_firstSession v = firstSession d \<and> v_numberOfAppeals v = numberOfAppeals d \<and>
       v_lastSession v = firstSession d + numberOfAppeals d"
  using getData_fields by blast

text \<open>
  C8, at dispute 1 of the example ledger: first session 1, one appeal, last session 2.
\<close>

theorem lastSession_derived_witness:
  "v_firstSession (projr (getDataForDispute exampleLedger exampleStore ''0xK'' 1 ''0xJ'')) = 1 \<and>
   v_numberOfAppeals (projr (getDataForDispute exampleLedger exampleStore ''0xK'' 1 ''0xJ'')) = 1 \<and>
   v_lastSession (projr (getDataForDispute exampleLedger exampleStore ''0xK'' 1 ''0xJ'')) = 2"
proof -
  have "\<not> isl (getDataForDispute exampleLedger exampleStore ''0xK'' 1 ''0xJ'')"
    by (simp add: model_defs example_defs)
  then have h: "getDataForDispute exampleLedger exampleStore ''0xK'' 1 ''0xJ'' =
      Inr (projr (getDataForDispute exampleLedger exampleStore ''0xK'' 1 ''0xJ''))"
    by simp
  from lastSession_derived [OF h] show ?thesis
    by (auto simp: example_defs)
qed

text \<open>
  C9. \<open>getEvidenceForArbitrableContract\<close> returns party A's stored evidence followed by
  party B's, an absent store record giving no evidence, and every item carries as
  submitter the party address of the ledger's contract data, whatever was stored.
\<close>

theorem evidence_concat:
  "arbitrableWrappersSet L \<Longrightarrow> ArbitrableContract_getData L c = Inr acd \<Longrightarrow>
   getEvidenceForArbitrableContract L S c =
     Inr (map (\<lambda>e. e\<lparr>submitter := Some (partyA acd)\<rparr>)
            (case contracts S (partyA acd, c) of None \<Rightarrow> [] | Some r \<Rightarrow> evidences r) @
          map (\<lambda>e. e\<lparr>submitter := Some (partyB acd)\<rparr>)
            (case contracts S (partyB acd, c) of None \<Rightarrow> [] | Some r \<Rightarrow> evidences r))"
  by (simp add: getEvidenceForArbitrableContract_def checkArbitrableWrappersSet_def
      getContractByAddress_def evidencesOf_def Let_def)

text \<open>
  C9, at contract \<open>0xC\<close> of the example: the stored submitters \<open>0xB\<close> and none are
  replaced by \<open>0xA\<close> and \<open>0xB\<close>.
\<close>

theorem evidence_concat_witness:
  "getEvidenceForArbitrableContract exampleLedger exampleStore ''0xC'' =
     Inr [\<lparr>submitter = Some ''0xA'', content = ''photo''\<rparr>,
          \<lparr>submitter = Some ''0xB'', content = ''receipt''\<rparr>]"
proof -
  have h1: "arbitrableWrappersSet exampleLedger" by (simp add: example_defs)
  have h2: "ArbitrableContract_getData exampleLedger ''0xC'' =
      Inr \<lparr>partyA = ''0xA'', partyB = ''0xB'', contractStatus = 0\<rparr>"
    by (simp add: example_defs)
  from evidence_concat [OF h1 h2, of exampleStore] show ?thesis
    by (simp add: example_defs)
qed

text \<open>
  C5. In every view that \<open>getDataForDispute\<close> returns, \<open>canRule\<close> is false for every
  appeal before the final one; for the final appeal \<open>canRule\<close> is true only if its draws
  are not empty and \<open>canRuleDispute\<close> answers true for them. The view depends on
  \<open>canRuleDispute\<close> through its answer for the final appeal's draws alone, and not at all
  when these draws are empty: the check is consulted for nothing else.
\<close>

theorem canRule_only_final:
  assumes "getDataForDispute L S arb i account = Inr v"
  shows "length (v_appealJuror v) = Suc (v_lastSession v - v_firstSession v) \<and>
    (\<forall>k < v_lastSession v - v_firstSession v. \<not> aj_canRule (v_appealJuror v ! k)) \<and>
    (aj_canRule (v_appealJuror v ! (v_lastSession v - v_firstSession v)) \<longrightarrow>
       aj_draws (v_appealJuror v ! (v_lastSession v - v_firstSession v)) \<noteq> [] \<and>
       canRuleDispute L account i
         (aj_draws (v_appealJuror v ! (v_lastSession v - v_firstSession v))) = Inr True) \<and>
    (\<forall>f. f account i (aj_draws (v_appealJuror v ! (v_lastSession v - v_firstSession v))) =
            canRuleDispute L account i
              (aj_draws (v_appealJuror v ! (v_lastSession v - v_firstSession v))) \<longrightarrow>
         getDataForDispute (L\<lparr>canRuleDispute := f\<rparr>) S arb i account = Inr v) \<and>
    (aj_draws (v_appealJuror v ! (v_lastSession v - v_firstSession v)) = [] \<longrightarrow>
       (\<forall>f. getDataForDispute (L\<lparr>canRuleDispute := f\<rparr>) S arb i account = Inr v))"
proof -
  from getData_appealLoop [OF assms] obtain d where
    g: "getDispute L arb i = Inr (Some d)" and
    fs: "v_firstSession v = firstSession d" and
    ls: "v_lastSession v = firstSession d + numberOfAppeals d" and
    lp: "appealLoop L arb i account d (firstSession d + numberOfAppeals d)
             (fst (storedUserData S arb i account))
             (snd (snd (snd (storedUserData S arb i account))))
             [0..<Suc (firstSession d + numberOfAppeals d - firstSession d)] [] [] =
           Inr (v_appealRulings v, v_appealJuror v)"
    by blast
  let ?n = "numberOfAppeals d"
  let ?ls = "firstSession d + numberOfAppeals d"
  let ?D = "fst (storedUserData S arb i account)"
  have n: "v_lastSession v - v_firstSession v = ?n" by (simp add: fs ls)
  have js: "v_appealJuror v = map (jurorEntry L account i d ?ls ?D) [0..<Suc ?n]"
    using appealLoop_jurors [OF lp] by simp
  have nth: "\<And>k. k \<le> ?n \<Longrightarrow> v_appealJuror v ! k = jurorEntry L account i d ?ls ?D k"
    unfolding js by (metis add_0 le_imp_less_Suc nth_map_upt diff_zero)
  have len: "length (v_appealJuror v) = Suc ?n" by (simp add: js)
  have early: "\<forall>k < ?n. \<not> aj_canRule (v_appealJuror v ! k)"
    by (simp add: nth jurorEntry_def)
  have final: "aj_canRule (v_appealJuror v ! ?n) \<longrightarrow>
       aj_draws (v_appealJuror v ! ?n) \<noteq> [] \<and>
       canRuleDispute L account i (aj_draws (v_appealJuror v ! ?n)) = Inr True"
    by (simp add: nth jurorEntry_def)
  have dep: "getDataForDispute (L\<lparr>canRuleDispute := f\<rparr>) S arb i account = Inr v"
    if f: "aj_draws (v_appealJuror v ! ?n) \<noteq> [] \<longrightarrow>
           f account i (aj_draws (v_appealJuror v ! ?n)) =
            canRuleDispute L account i (aj_draws (v_appealJuror v ! ?n))" for f
  proof -
    have "\<forall>a\<in>set [0..<Suc ?n]. a = ?ls \<longrightarrow> drawsOfAppeal ?D a \<noteq> [] \<longrightarrow>
        f account i (drawsOfAppeal ?D a) = canRuleDispute L account i (drawsOfAppeal ?D a)"
    proof (intro ballI impI)
      fix a assume a: "a \<in> set [0..<Suc ?n]" "a = ?ls" "drawsOfAppeal ?D a \<noteq> []"
      then have "a = ?n" by auto
      with f a(3) nth [of ?n] show "f account i (drawsOfAppeal ?D a) =
          canRuleDispute L account i (drawsOfAppeal ?D a)"
        by (simp add: jurorEntry_def)
    qed
    then have "appealLoop (L\<lparr>canRuleDispute := f\<rparr>) arb i account d ?ls ?D
        (snd (snd (snd (storedUserData S arb i account)))) [0..<Suc ?n] [] [] =
       appealLoop L arb i account d ?ls ?D
        (snd (snd (snd (storedUserData S arb i account)))) [0..<Suc ?n] [] []"
      by (rule appealLoop_canRule_update)
    then have "getDataForDispute (L\<lparr>canRuleDispute := f\<rparr>) S arb i account =
         getDataForDispute L S arb i account"
      using g by (intro getData_canRule_update) simp
    with assms show ?thesis by simp
  qed
  show ?thesis
    unfolding n using len early final dep by simp
qed

text \<open>
  C5, at dispute 0 of the example: with draws \<open>[1]\<close> and \<open>[2]\<close> only the final appeal
  can be ruled; with no stored draws none can.
\<close>

theorem canRule_only_final_witness:
  "map aj_canRule (v_appealJuror (projr (getDataForDispute exampleLedger exampleStore
                                           ''0xK'' 0 ''0xJ''))) = [False, True] \<and>
   map aj_draws (v_appealJuror (projr (getDataForDispute exampleLedger exampleStore
                                           ''0xK'' 0 ''0xJ''))) = [ [1], [2] ] \<and>
   map aj_canRule (v_appealJuror (projr (getDataForDispute exampleLedger emptyStore
                                           ''0xK'' 0 ''0xJ''))) = [False, False] \<and>
   map aj_draws (v_appealJuror (projr (getDataForDispute exampleLedger emptyStore
                                           ''0xK'' 0 ''0xJ''))) = [ [], [] ]"
proof -
  have "\<not> isl (getDataForDispute exampleLedger exampleStore ''0xK'' 0 ''0xJ'')"
    by (simp add: model_defs example_defs)
  then have h1: "getDataForDispute exampleLedger exampleStore ''0xK'' 0 ''0xJ'' =
      Inr (projr (getDataForDispute exampleLedger exampleStore ''0xK'' 0 ''0xJ''))"
    by simp
  have "\<not> isl (getDataForDispute exampleLedger emptyStore ''0xK'' 0 ''0xJ'')"
    by (simp add: emptyStore_def model_defs example_defs)
  then have h2: "getDataForDispute exampleLedger emptyStore ''0xK'' 0 ''0xJ'' =
      Inr (projr (getDataForDispute exampleLedger emptyStore ''0xK'' 0 ''0xJ''))"
    by simp
  from canRule_only_final [OF h1] canRule_only_final [OF h2] show ?thesis
    by (simp add: emptyStore_def model_defs example_defs)
qed



subsection \<open>Merging into the store\<close>

lemma merge_fail: 
  "getDataForDispute L S arb i account = Inl e \<Longrightarrow>
   updateStoreForDispute L S arb i account c r = (Inl e, S)"
  by (simp add: updateStoreForDispute_def)

lemma zero_same_as_absent:
  "updateStoreForDispute L S arb i account (Some 0) r = updateStoreForDispute L S arb i account None r"
  "updateStoreForDispute L S arb i account c (Some 0) = updateStoreForDispute L S arb i account c None"
  by (simp_all add: updateStoreForDispute_def truthy_def cong: sum.case_cong)

lemma merge_store:
  assumes "getDataForDispute L S arb i account = Inr v"
  shows "\<exists>doc S1. updateDispute S i arb (v_arbitrableContractAddress v) (v_partyA v) (v_partyB v)
                 (mergedCreatedAt v c) (mergedRuledAt v r) = (doc, S1) \<and>
         (snd (updateStoreForDispute L S arb i account c r) = S1 \<or>
          snd (updateStoreForDispute L S arb i account c r) =
            updateDisputeProfile S1 account (storedDrawsField S account arb i) arb i (v_netPNK v) \<or>
          (\<exists>ds. snd (updateStoreForDispute L S arb i account c r) =
            updateDisputeProfile S1 account
              (Some (array_set (storedDraws S account arb i) (v_numberOfAppeals v) (Some ds)))
              arb i (v_netPNK v)))"
proof -
  from getData_fields [OF assms] have k: "v_disputeId v = i" "v_arbitratorAddress v = arb"
    by auto
  obtain doc S1 where u: "updateDispute S i arb (v_arbitrableContractAddress v) (v_partyA v)
      (v_partyB v) (mergedCreatedAt v c) (mergedRuledAt v r) = (doc, S1)"
    by (cases "updateDispute S i arb (v_arbitrableContractAddress v) (v_partyA v)
      (v_partyB v) (mergedCreatedAt v c) (mergedRuledAt v r)") 
  have pe: "profileEntry S1 account arb i = profileEntry S account arb i"
    using profileEntry_updateDispute [of S i arb _ _ _ _ _ account arb i] u
    by (metis snd_conv)
  have d1: "disputes S1 (arb, i) \<noteq> None"
    using updateDispute_store(1) [of S i arb] u by (metis option.distinct(1) snd_conv)
  then obtain sd where sd: "disputes S1 (arb, i) = Some sd" by blast
  have gd: "getDisputeData S1 arb i account =
     Inr \<lparr>ud_appealDraws = storedDrawsField S account arb i,
          ud_netPNK = (case profileEntry S account arb i of None \<Rightarrow> None | Some e \<Rightarrow> pd_netPNK e),
          ud_appealCreatedAt = Some (sd_appealCreatedAt sd),
          ud_appealRuledAt = Some (sd_appealRuledAt sd)\<rparr>"
    by (simp add: getDisputeData_def sd pe storedDrawsField_def split: option.splits)
  have dr: "(case storedDrawsField S account arb i of None \<Rightarrow> [] | Some a \<Rightarrow> a)
              = storedDraws S account arb i"
    by (simp add: storedDrawsField_def storedDraws_def split: option.splits)
  have unf: "updateStoreForDispute L S arb i account c r =
     (case getSession L arb of
        Inl err \<Rightarrow> (Inl err, S1)
      | Inr currentSession \<Rightarrow>
     (case (if v_lastSession v = currentSession then
              (case getDrawsForJuror L arb i account of
                 Inl err \<Rightarrow> Inl err
               | Inr sessionDraws \<Rightarrow>
                   Inr (Some (array_set (storedDraws S account arb i)
                                (v_numberOfAppeals v) (Some sessionDraws))))
            else Inr (storedDrawsField S account arb i)) of
        Inl err \<Rightarrow> (Inl err, S1)
      | Inr appealDraws \<Rightarrow>
          (Inr doc, updateDisputeProfile S1 account appealDraws arb i (v_netPNK v))))"
    unfolding updateStoreForDispute_def
    by (simp add: assms k Let_def mergedCreatedAt_def [symmetric]
        mergedRuledAt_def [symmetric] u gd dr cong: sum.case_cong if_cong)
  show ?thesis
    unfolding unf using u
    by (auto split: sum.splits)
qed

lemma merge_timestamps:
  assumes "getDataForDispute L S arb i account = Inr v"
  shows "storedCreatedAt (snd (updateStoreForDispute L S arb i account c r)) arb i
           = mergedCreatedAt v c \<and>
         storedRuledAt (snd (updateStoreForDispute L S arb i account c r)) arb i
           = mergedRuledAt v r"
proof -
  from merge_store [OF assms, of c r] obtain doc S1 where
    u: "updateDispute S i arb (v_arbitrableContractAddress v) (v_partyA v) (v_partyB v)
                 (mergedCreatedAt v c) (mergedRuledAt v r) = (doc, S1)" and
    s: "disputes (snd (updateStoreForDispute L S arb i account c r)) = disputes S1"
    by (auto simp: disputes_updateDisputeProfile)
  have "disputes S1 (arb, i) =
     Some \<lparr>sd_arbitrableContractAddress = v_arbitrableContractAddress v,
           sd_partyA = v_partyA v, sd_partyB = v_partyB v,
           sd_appealCreatedAt = mergedCreatedAt v c, sd_appealRuledAt = mergedRuledAt v r\<rparr>"
    using updateDispute_store(1) [of S i arb "v_arbitrableContractAddress v" "v_partyA v"
        "v_partyB v" "mergedCreatedAt v c" "mergedRuledAt v r"] u by simp
  then show ?thesis
    by (simp add: storedCreatedAt_def storedRuledAt_def s)
qed






text \<open>
  C10. \<open>_updateStoreForDispute\<close> with \<open>createdAt = 0\<close> (\<open>ruledAt = 0\<close>) does what it does with
  the argument absent, and for a participant with a non-empty address it leaves the stored
  \<open>appealCreatedAt\<close> (\<open>appealRuledAt\<close>) as it was: timestamp 0 is never recorded.
\<close>

theorem zero_timestamp_not_recorded:
  "updateStoreForDispute L S arb i account (Some 0) r =
     updateStoreForDispute L S arb i account None r \<and>
   updateStoreForDispute L S arb i account c (Some 0) =
     updateStoreForDispute L S arb i account c None \<and>
   (account \<noteq> [] \<longrightarrow>
      storedCreatedAt (snd (updateStoreForDispute L S arb i account (Some 0) r)) arb i =
        storedCreatedAt S arb i \<and>
      storedRuledAt (snd (updateStoreForDispute L S arb i account c (Some 0))) arb i =
        storedRuledAt S arb i)"
proof -
  have keep: "storedCreatedAt (snd (updateStoreForDispute L S arb i account (Some 0) r)) arb i =
        storedCreatedAt S arb i \<and>
      storedRuledAt (snd (updateStoreForDispute L S arb i account c (Some 0))) arb i =
        storedRuledAt S arb i" if acc: "account \<noteq> []"
  proof (cases "getDataForDispute L S arb i account")
    case (Inl e)
    then show ?thesis by (simp add: merge_fail)
  next
    case (Inr v)
    from getData_fields [OF Inr] storedUserData_arrays [OF acc, of S arb i]
    have "v_appealCreatedAt v = storedCreatedAt S arb i" "v_appealRuledAt v = storedRuledAt S arb i"
      by auto
    with merge_timestamps [OF Inr, of "Some 0" r] merge_timestamps [OF Inr, of c "Some 0"]
    show ?thesis by (simp add: mergedCreatedAt_def mergedRuledAt_def truthy_def)
  qed
  with zero_same_as_absent [of L S arb i account] show ?thesis by simp
qed

text \<open>
  C10, at dispute 0 of the example.
\<close>

theorem zero_timestamp_not_recorded_witness:
  "''0xJ'' \<noteq> [] \<and>
   storedCreatedAt (snd (updateStoreForDispute exampleLedger exampleStore ''0xK'' 0 ''0xJ''
                           (Some 0) None)) ''0xK'' 0 = [Some 1000, Some 1500] \<and>
   storedRuledAt (snd (updateStoreForDispute exampleLedger exampleStore ''0xK'' 0 ''0xJ''
                           (Some 2000) (Some 0))) ''0xK'' 0 = [Some 1200]"
proof -
  have h: "''0xJ'' \<noteq> []" by simp
  from zero_timestamp_not_recorded [of exampleLedger exampleStore "''0xK''" 0 "''0xJ''" None
      "Some 2000"] h
  have "storedCreatedAt (snd (updateStoreForDispute exampleLedger exampleStore ''0xK'' 0 ''0xJ''
                           (Some 0) None)) ''0xK'' 0 = storedCreatedAt exampleStore ''0xK'' 0"
    and "storedRuledAt (snd (updateStoreForDispute exampleLedger exampleStore ''0xK'' 0 ''0xJ''
                           (Some 2000) (Some 0))) ''0xK'' 0 = storedRuledAt exampleStore ''0xK'' 0"
    by blast+
  then show ?thesis
    by (simp add: storedCreatedAt_def storedRuledAt_def exampleStore_def)
qed

subsection \<open>Token shifts\<close>

lemma tokenShift_untracked:
  assumes "ts_account ev = address" "getUserProfile S address = Some p"
    "find (sameDispute (ts_disputeID ev) c) (p_disputes p) = None"
  shows "tokenShiftHandler S c address ev = (Inr (), S)"
proof -
  have "findIndex (\<lambda>dispute. pd_disputeId dispute = ts_disputeID ev \<and>
           pd_arbitratorAddress dispute = c) (p_disputes p) < 0"
    using assms(3) findIndex_none [of "sameDispute (ts_disputeID ev) c" "p_disputes p"]
    by (simp add: sameDispute_def [abs_def])
  then show ?thesis using assms(1,2) by (simp add: tokenShiftHandler_def Let_def)
qed







text \<open>
  C7. A token-shift event for the listening participant whose dispute is not in the
  participant's profile returns normally and leaves the store as it is, also when it is
  delivered twice.
\<close>

theorem untracked_shift_ignored:
  assumes "ts_account ev = address" "getUserProfile S address = Some p"
    "\<forall>x\<in>set (p_disputes p). \<not> (pd_disputeId x = ts_disputeID ev \<and> pd_arbitratorAddress x = c)"
  shows "tokenShiftHandler S c address ev = (Inr (), S) \<and>
         deliverTokenShifts S c address [ev, ev] = S"
proof -
  have "find (sameDispute (ts_disputeID ev) c) (p_disputes p) = None"
    using assms(3) by (auto simp: find_None_iff sameDispute_def)
  from tokenShift_untracked [OF assms(1,2) this] show ?thesis by simp
qed

text \<open>
  C7, at the example: a shift of 50 for the untracked dispute 12.
\<close>

theorem untracked_shift_ignored_witness:
  "tokenShiftHandler exampleStore ''0xK'' ''0xJ'' untrackedShift = (Inr (), exampleStore) \<and>
   deliverTokenShifts exampleStore ''0xK'' ''0xJ'' [untrackedShift, untrackedShift] = exampleStore"
proof -
  let ?p = "\<lparr>p_session = Some 1, p_disputes =
                     [\<lparr>pd_disputeId = 0, pd_arbitratorAddress = ''0xK'',
                       pd_appealDraws = Some [Some [1], Some [2] ], pd_netPNK = Some 5\<rparr>]\<rparr>"
  have h1: "ts_account untrackedShift = ''0xJ''" by (simp add: untrackedShift_def)
  have h2: "getUserProfile exampleStore ''0xJ'' = Some ?p"
    by (simp add: getUserProfile_def example_defs)
  have h3: "\<forall>x\<in>set (p_disputes ?p).
       \<not> (pd_disputeId x = ts_disputeID untrackedShift \<and> pd_arbitratorAddress x = ''0xK'')"
    by (simp add: untrackedShift_def)
  from untracked_shift_ignored [OF h1 h2 h3] show ?thesis .
qed

subsection \<open>The juror scan\<close>







subsection \<open>The new-period scan\<close>

lemma rulingWhile_passes:
  "rulingPasses L c address cb event up cs n st = Some st' \<Longrightarrow>
   rulingWhile L c address cb event up cs st = rulingWhile L c address cb event up cs st'"
proof (induction n arbitrary: st)
  case 0
  then show ?case by simp
next
  case (Suc n)
  then obtain st1 where s: "rulingPass L c address cb event up cs st = Continue st1"
    "rulingPasses L c address cb event up cs n st1 = Some st'"
    by (auto split: pass.splits)
  from Suc.IH [OF s(2)] s(1) show ?case
    by (subst rulingWhile.simps) simp
qed

lemma rulingWhile_sentinel:
  "getDispute L c i = Inr (Some d) \<Longrightarrow> arbitratedContract d = NULL_ADDRESS L \<Longrightarrow>
   rulingWhile L c address cb event up cs (i, S, called) = Some (Inr (), i, S, called)"
  by (subst rulingWhile.simps) (simp add: rulingPass_def)

lemma rulingWhile_ruling_fails:
  "getDispute L c i = Inr (Some d) \<Longrightarrow> arbitratedContract d \<noteq> NULL_ADDRESS L \<Longrightarrow>
   firstSession d + numberOfAppeals d = cs \<Longrightarrow>
   currentRulingForDispute L c i (numberOfAppeals d) = Inl err \<Longrightarrow>
   err \<noteq> StringValue ''DisputeOutOfRange'' \<Longrightarrow>
   rulingWhile L c address cb event up cs (i, S, called) = Some (Inl err, i, S, called)"
  by (subst rulingWhile.simps) (simp add: rulingPass_def rulingCatch_def)

lemma rulingWhile_getDispute_fails:
  "getDispute L c i = Inl err \<Longrightarrow>
   rulingWhile L c address cb event up cs (i, S, called) =
     Some (Inl (ErrorObject ''DisputeOutOfRange''), i, S, called)"
  by (subst rulingWhile.simps) (simp add: rulingPass_def rulingCatch_def)

text \<open>
  A failure of \<open>getDispute\<close> reaches the outer \<open>catch\<close> as \<open>new Error('DisputeOutOfRange')\<close>,
  which is not \<open>===\<close> to the string \<open>'DisputeOutOfRange'\<close>: it is thrown on.
\<close>

lemma getDispute_failure_rethrown:
  assumes "np_period event = PERIOD_APPEAL L" "arbitratorWrappersSet L"
    and "Arbitrator_getData L c (Some address) = Inr arbitratorData"
    and "rulingPasses L c address cb event (getUserProfile S address) (session arbitratorData)
           n (0, S, []) = Some (i, S', called)"
    and "getDispute L c i = Inl err"
  shows "disputeRulingHandler L S c address cb event =
           Some (Inl (ErrorObject ''DisputeOutOfRange''), S', called)"
  using assms(1,2,3) rulingWhile_passes [OF assms(4)] rulingWhile_getDispute_fails [OF assms(5)]
  by (simp add: disputeRulingHandler_def checkArbitratorWrappersSet_def Let_def)

lemma getDispute_failure_example:
  "disputeRulingHandler disputeFailsLedger exampleStore ''0xK'' ''0xJ'' True exampleNewPeriod =
     Some (Inl (ErrorObject ''DisputeOutOfRange''), exampleStore, [])"
proof -
  have "rulingWhile disputeFailsLedger ''0xK'' ''0xJ'' True exampleNewPeriod
          (getUserProfile exampleStore ''0xJ'') 1 (0, exampleStore, []) =
        Some (Inl (ErrorObject ''DisputeOutOfRange''), 0, exampleStore, [])"
    by (subst rulingWhile.simps)
       (simp add: rulingPass_def rulingCatch_def disputeFailsLedger_def exampleLedger_def)
  then show ?thesis
    by (simp add: disputeRulingHandler_def checkArbitratorWrappersSet_def
        disputeFailsLedger_def exampleLedger_def exampleNewPeriod_def)
qed

text \<open>
  C4, as stated, fails: when \<open>currentRulingForDispute\<close> fails during the scan, the handler
  throws that failure.
\<close>

theorem ruling_scan_not_swallowed:
  "disputeRulingHandler rulingFailsLedger exampleStore ''0xK'' ''0xJ'' True exampleNewPeriod =
     Some (Inl (ErrorObject ''timeout''), exampleStore, [])"
proof -
  have "rulingWhile rulingFailsLedger ''0xK'' ''0xJ'' True exampleNewPeriod
          (getUserProfile exampleStore ''0xJ'') 1 (0, exampleStore, []) =
        Some (Inl (ErrorObject ''timeout''), 0, exampleStore, [])"
    by (subst rulingWhile.simps)
       (simp add: rulingPass_def rulingCatch_def rulingFailsLedger_def exampleLedger_def
          exampleDispute_def)
  then show ?thesis
    by (simp add: disputeRulingHandler_def checkArbitratorWrappersSet_def
        rulingFailsLedger_def exampleLedger_def exampleNewPeriod_def)
qed

text \<open>
  C4, amended. When the scan of the new-period handler reaches a dispute whose
  arbitrated contract is the null address, the handler returns normally; when it reaches a
  dispute of the current session whose \<open>currentRulingForDispute\<close> fails with anything but
  the bare string \<open>'DisputeOutOfRange'\<close>, the handler throws that failure. In both cases
  the store and the callback calls are those of the passes made before.
\<close>

theorem ruling_scan_outcomes:
  assumes "np_period event = PERIOD_APPEAL L" "arbitratorWrappersSet L"
    and "Arbitrator_getData L c (Some address) = Inr arbitratorData"
    and "rulingPasses L c address cb event (getUserProfile S address) (session arbitratorData)
           n (0, S, []) = Some (i, S', called)"
    and "getDispute L c i = Inr (Some d)"
  shows "(arbitratedContract d = NULL_ADDRESS L \<longrightarrow>
            disputeRulingHandler L S c address cb event = Some (Inr (), S', called)) \<and>
         (arbitratedContract d \<noteq> NULL_ADDRESS L \<and>
          firstSession d + numberOfAppeals d = session arbitratorData \<and>
          currentRulingForDispute L c i (numberOfAppeals d) = Inl err \<and>
          err \<noteq> StringValue ''DisputeOutOfRange'' \<longrightarrow>
            disputeRulingHandler L S c address cb event = Some (Inl err, S', called))"
proof -
  have h: "disputeRulingHandler L S c address cb event =
      map_option (\<lambda>(r, disputeId, S', called). (r, S', called))
        (rulingWhile L c address cb event (getUserProfile S address) (session arbitratorData)
           (i, S', called))"
    using assms(1,2,3) rulingWhile_passes [OF assms(4)]
    by (simp add: disputeRulingHandler_def checkArbitratorWrappersSet_def Let_def)
  show ?thesis
    unfolding h
    using rulingWhile_sentinel [OF assms(5)] rulingWhile_ruling_fails [OF assms(5)]
    by simp
qed

text \<open>
  C4 amended, at the example: the handler returns normally on the example ledger, where
  the scan ends at id 3, and throws on the ledger whose ruling query fails.
\<close>

theorem ruling_scan_outcomes_witness:
  "map_option fst (disputeRulingHandler exampleLedger exampleStore ''0xK'' ''0xJ'' True
                     exampleNewPeriod) = Some (Inr ()) \<and>
   map_option fst (disputeRulingHandler rulingFailsLedger exampleStore ''0xK'' ''0xJ'' True
                     exampleNewPeriod) = Some (Inl (ErrorObject ''timeout''))"
proof -
  let ?ad = "\<lparr>period = 3, session = 1, lastPeriodChange = 100\<rparr>"
  have p: "np_period exampleNewPeriod = PERIOD_APPEAL exampleLedger"
    "np_period exampleNewPeriod = PERIOD_APPEAL rulingFailsLedger"
    by (simp_all add: rulingFailsLedger_def exampleNewPeriod_def example_defs)
  have w: "arbitratorWrappersSet exampleLedger" "arbitratorWrappersSet rulingFailsLedger"
    by (simp_all add: rulingFailsLedger_def exampleNewPeriod_def example_defs)
  have g: "Arbitrator_getData exampleLedger ''0xK'' (Some ''0xJ'') = Inr ?ad"
    "Arbitrator_getData rulingFailsLedger ''0xK'' (Some ''0xJ'') = Inr ?ad"
    by (simp_all add: rulingFailsLedger_def exampleNewPeriod_def example_defs)
  have "\<exists>S' called. rulingPasses exampleLedger ''0xK'' ''0xJ'' True exampleNewPeriod
           (getUserProfile exampleStore ''0xJ'') (session ?ad) (Suc (Suc (Suc 0))) (0, exampleStore, []) =
         Some (3, S', called)"
    by (simp add: rulingPass_def rulingCatch_def newNotification_def exampleNewPeriod_def
        model_defs example_defs)
  then obtain S' called where r: "rulingPasses exampleLedger ''0xK'' ''0xJ'' True exampleNewPeriod
           (getUserProfile exampleStore ''0xJ'') (session ?ad) (Suc (Suc (Suc 0))) (0, exampleStore, []) =
         Some (3, S', called)" by blast
  have d: "getDispute exampleLedger ''0xK'' 3 = Inr (Some (exampleDispute\<lparr>arbitratedContract := ''0x''\<rparr>))"
    by (simp add: example_defs)
  have a: "map_option fst (disputeRulingHandler exampleLedger exampleStore ''0xK'' ''0xJ'' True
                     exampleNewPeriod) = Some (Inr ())"
    using ruling_scan_outcomes [OF p(1) w(1) g(1) r d] by (simp add: example_defs)
  have r0: "rulingPasses rulingFailsLedger ''0xK'' ''0xJ'' True exampleNewPeriod
           (getUserProfile exampleStore ''0xJ'') (session ?ad) 0 (0, exampleStore, []) =
         Some (0, exampleStore, [])" by simp
  have d0: "getDispute rulingFailsLedger ''0xK'' 0 = Inr (Some exampleDispute)"
    by (simp add: rulingFailsLedger_def example_defs)
  have b: "map_option fst (disputeRulingHandler rulingFailsLedger exampleStore ''0xK'' ''0xJ'' True
                     exampleNewPeriod) = Some (Inl (ErrorObject ''timeout''))"
    using ruling_scan_outcomes [OF p(2) w(2) g(2) r0 d0, of "ErrorObject ''timeout''"]
    by (simp add: rulingFailsLedger_def example_defs)
  from a b show ?thesis by simp
qed

end
